theory Spec2Isabelle
  imports Main "HOL-Library.Word"
begin

section \<open>JavaScript strings\<close>

text \<open>
  A JavaScript string is a sequence of UTF-16 code units. String literals of the source
  are ASCII; \<open>js\<close> embeds an ASCII literal.
\<close>

type_synonym jschar = "16 word"
type_synonym jsstring = "jschar list"

definition js :: "string \<Rightarrow> jsstring" where
  "js s = map (\<lambda>c. of_nat (of_char c)) s"

text \<open>
  The class \<^verbatim>\<open>\s\<close> of a regular expression and the characters removed by
  \<^verbatim>\<open>String.prototype.trim\<close> are the same set: WhiteSpace and LineTerminator of
  ECMAScript (TAB, LF, VT, FF, CR, SP, NBSP, U+1680, U+2000..U+200A, LS, PS, U+202F,
  U+205F, U+3000, U+FEFF).
\<close>

definition is_ws :: "jschar \<Rightarrow> bool" where
  "is_ws c = (c = 0x09 \<or> c = 0x0A \<or> c = 0x0B \<or> c = 0x0C \<or> c = 0x0D \<or> c = 0x20 \<or>
     c = 0xA0 \<or> c = 0x1680 \<or> (0x2000 \<le> c \<and> c \<le> 0x200A) \<or> c = 0x2028 \<or> c = 0x2029 \<or>
     c = 0x202F \<or> c = 0x205F \<or> c = 0x3000 \<or> c = 0xFEFF)"

text \<open>The class \<^verbatim>\<open>\d\<close> (without the unicode flag): the ASCII digits.\<close>

definition is_digit :: "jschar \<Rightarrow> bool" where
  "is_digit c = (0x30 \<le> c \<and> c \<le> 0x39)"

text \<open>\<^verbatim>\<open>s.replace(/\s+/g, ' ')\<close>: every maximal run of whitespace becomes one space.\<close>

function replace_ws :: "jsstring \<Rightarrow> jsstring" where
  "replace_ws [] = []"
| "replace_ws (c # cs) =
     (if is_ws c then 0x20 # replace_ws (dropWhile is_ws cs) else c # replace_ws cs)"
  by pat_completeness auto
termination
  by (relation "measure length") (auto simp: length_dropWhile_le less_Suc_eq_le)

text \<open>\<^verbatim>\<open>s.trim()\<close>\<close>

definition trim :: "jsstring \<Rightarrow> jsstring" where
  "trim s = rev (dropWhile is_ws (rev (dropWhile is_ws s)))"

text \<open>
  The expression \<^verbatim>\<open>.replace(/\s+/g, ' ').trim()\<close> that \<^verbatim>\<open>handle_youdao\<close>
  applies to the texts it extracts.
\<close>

definition normalize :: "jsstring \<Rightarrow> jsstring" where
  "normalize s = trim (replace_ws s)"

text \<open>\<^verbatim>\<open>s.startsWith(p)\<close>\<close>

definition startsWith :: "jsstring \<Rightarrow> jsstring \<Rightarrow> bool" where
  "startsWith s p = (take (length p) s = p)"

text \<open>\<^verbatim>\<open>xs.join(sep)\<close> on an array of strings\<close>

fun join :: "jsstring \<Rightarrow> jsstring list \<Rightarrow> jsstring" where
  "join sep [] = []"
| "join sep [x] = x"
| "join sep (x # y # ys) = x @ sep @ join sep (y # ys)"

text \<open>
  \<^verbatim>\<open>s.match(/\d+/)\<close>: \<open>None\<close> for \<^verbatim>\<open>null\<close>, otherwise element 0 of the match
  array, the leftmost longest run of digits.
\<close>

definition match_digits :: "jsstring \<Rightarrow> jsstring option" where
  "match_digits s =
     (let r = dropWhile (\<lambda>c. \<not> is_digit c) s
      in if r = [] then None else Some (takeWhile is_digit r))"

text \<open>A string in which whitespace occurs only as single spaces.\<close>

fun collapsed :: "jsstring \<Rightarrow> bool" where
  "collapsed [] = True"
| "collapsed [c] = (if is_ws c then c = 0x20 else True)"
| "collapsed (c # d # cs) =
     ((if is_ws c then c = 0x20 \<and> \<not> is_ws d else True) \<and> collapsed (d # cs))"

section \<open>The record built by a lookup\<close>

text \<open>
  The object \<^verbatim>\<open>result\<close> of \<^verbatim>\<open>searchWord\<close>: every property is optional, \<open>None\<close>
  is a property that is not there (never assigned, or deleted). An assigned empty string is
  \<open>Some []\<close>.
\<close>

text \<open>
  The value of \<^verbatim>\<open>stars\<close>: element 0 of a match array is a string, element 0 of
  \<^verbatim>\<open>[0]\<close> is a number.
\<close>

datatype jsvalue = JNum int | JStr jsstring

record cdef_entry =
  pos :: jsstring
  "def" :: jsstring

text \<open>\<^verbatim>\<open>.html()\<close> of an empty selection is \<^verbatim>\<open>null\<close>: \<open>None\<close>.\<close>

record sentence_entry =
  en :: "jsstring option"
  chs :: "jsstring option"
  source :: jsstring

record meaning =
  m_word :: jsstring
  m_def :: jsstring

record suggestion =
  s_title :: jsstring
  meanings :: "meaning list"

record result =
  title :: "jsstring option"
  phsym :: "jsstring option"
  cdef :: "cdef_entry list option"
  infs :: "jsstring option"
  sentences :: "sentence_entry list option"
  mt :: "jsstring option"
  defs :: "suggestion list option"
  list :: "jsstring option"
  stars :: "jsvalue option"
  rank :: "jsstring option"
  pattern :: "jsstring option"
  prons :: "jsstring option"
  basic :: "jsstring list option"
  discrimination :: "jsstring option"
  sentence :: "jsstring list option"
  translation :: "jsstring option"

text \<open>\<^verbatim>\<open>const result = {}\<close>\<close>

definition empty_result :: result where
  "empty_result = \<lparr>title = None, phsym = None, cdef = None, infs = None, sentences = None,
     mt = None, defs = None, list = None, stars = None, rank = None, pattern = None,
     prons = None, basic = None, discrimination = None, sentence = None,
     translation = None\<rparr>"

text \<open>The test \<^verbatim>\<open>!result.title\<close> before rendering: no title, or the empty string.\<close>

definition no_result :: "result \<Rightarrow> bool" where
  "no_result r = (case title r of None \<Rightarrow> True | Some t \<Rightarrow> t = [])"

section \<open>The packages the program calls\<close>

text \<open>
  Modelled from the spec: the Tree Query Adapter of section 6 (the package cheerio) and the
  colouring functions of the package chalk are not part of the repository; the program is
  modelled over any implementation of them. \<open>'d\<close> is a parsed document in its current
  state (the tree is mutable), \<open>'e\<close> a reference to one of its elements. A selection is
  the list of its elements in document order.
  \<^item> \<open>cheerio_load\<close>: \<^verbatim>\<open>cheerio.load(markup)\<close>
  \<^item> \<open>cheerio_select d sel\<close>: \<^verbatim>\<open>$(sel)\<close>
  \<^item> \<open>cheerio_find d el sel\<close>: \<^verbatim>\<open>$(el).find(sel)\<close>
  \<^item> \<open>cheerio_text d els\<close>: \<^verbatim>\<open>.text()\<close> of a selection
  \<^item> \<open>cheerio_html d els\<close>: \<^verbatim>\<open>.html()\<close> of a selection, \<open>None\<close> for \<^verbatim>\<open>null\<close>
  \<^item> \<open>cheerio_attr d els name\<close>: \<^verbatim>\<open>.attr(name)\<close>, \<open>None\<close> for \<^verbatim>\<open>undefined\<close>
  \<^item> \<open>cheerio_replace d el content\<close>: the document after one element is replaced by
    the given content
  \<^item> \<open>chalk_red\<close>, \<open>chalk_cyan\<close>, \<open>chalk_dim\<close>: \<^verbatim>\<open>chalk.red\<close> and so on
\<close>

record ('d, 'e) adapter =
  cheerio_load :: "jsstring \<Rightarrow> 'd"
  cheerio_select :: "'d \<Rightarrow> string \<Rightarrow> 'e list"
  cheerio_find :: "'d \<Rightarrow> 'e \<Rightarrow> string \<Rightarrow> 'e list"
  cheerio_text :: "'d \<Rightarrow> 'e list \<Rightarrow> jsstring"
  cheerio_html :: "'d \<Rightarrow> 'e list \<Rightarrow> jsstring option"
  cheerio_attr :: "'d \<Rightarrow> 'e list \<Rightarrow> string \<Rightarrow> jsstring option"
  cheerio_replace :: "'d \<Rightarrow> 'e \<Rightarrow> jsstring \<Rightarrow> 'd"
  chalk_red :: "jsstring \<Rightarrow> jsstring"
  chalk_cyan :: "jsstring \<Rightarrow> jsstring"
  chalk_dim :: "jsstring \<Rightarrow> jsstring"

text \<open>
  \<^verbatim>\<open>selection.replaceWith(fn)\<close>: the elements are replaced one after the other, each
  by what \<^verbatim>\<open>fn\<close> returns for it on the document as it is by then.
\<close>

definition replaceWith ::
  "('d, 'e) adapter \<Rightarrow> 'd \<Rightarrow> 'e list \<Rightarrow> ('d \<Rightarrow> 'e \<Rightarrow> jsstring) \<Rightarrow> 'd" where
  "replaceWith A d els fn = foldl (\<lambda>d' el. cheerio_replace A d' el (fn d' el)) d els"

text \<open>A string is truthy when it is not empty: \<^verbatim>\<open>.filter((i, e) => e)\<close>.\<close>

definition truthy :: "jsstring \<Rightarrow> bool" where
  "truthy s = (s \<noteq> [])"

section \<open>Transport failures\<close>

record response =
  ok :: bool
  body :: jsstring
  statusText :: jsstring

text \<open>
  \<open>Exit m\<close>: the message \<open>m\<close> is written to the error stream and the process ends with
  status 1. \<open>Return x\<close>: the function returns \<open>x\<close>.
\<close>

datatype 'a outcome = Exit jsstring | Return 'a

text \<open>
  The message of \<^verbatim>\<open>text\<close> before it is coloured: \<^verbatim>\<open>message\<close> as it stands at
  \<^verbatim>\<open>message || response.statusText\<close>.
\<close>

definition error_message :: "('d, 'e) adapter \<Rightarrow> response \<Rightarrow> jsstring" where
  "error_message A response =
     (let message = body response;
          message' =
            (if startsWith message (js ''<!'') then
               (let d = cheerio_load A message;
                    sc_error = cheerio_text A d (cheerio_select A d ''.sc_error'')
                in if truthy sc_error then sc_error else message)
             else message)
      in if truthy message' then message' else statusText response)"

text \<open>The function \<^verbatim>\<open>text(response)\<close>.\<close>

definition text_response :: "('d, 'e) adapter \<Rightarrow> response \<Rightarrow> jsstring outcome" where
  "text_response A response =
     (if \<not> ok response then Exit (chalk_red A (error_message A response))
      else Return (body response))"

section \<open>The extractors of source A (bing)\<close>

text \<open>
  Every extractor takes the document and the record and returns the record and the document
  as it leaves them: \<^verbatim>\<open>replaceWith\<close> changes the parsed tree in place.
\<close>

text \<open>
  The callback of \<^verbatim>\<open>sens.map\<close> in \<^verbatim>\<open>client_def_hd_hd\<close>, for one element of
  \<^verbatim>\<open>.client_sentence_list\<close>.
\<close>

definition sentence_of :: "('d, 'e) adapter \<Rightarrow> 'd \<Rightarrow> 'e \<Rightarrow> sentence_entry \<times> 'd" where
  "sentence_of A d el =
     (let d1 = replaceWith A d
                 (cheerio_find A d el ''.client_sen_en_word, .client_sen_cn_word, .client_sen_word'')
                 (\<lambda>d' el'. cheerio_text A d' [el']);
          d2 = replaceWith A d1 (cheerio_find A d1 el ''.client_sentence_search'')
                 (\<lambda>d' el'. chalk_cyan A (cheerio_text A d' [el']))
      in (\<lparr>en = cheerio_html A d2 (cheerio_find A d2 el ''.client_sen_en''),
           chs = cheerio_html A d2 (cheerio_find A d2 el ''.client_sen_cn''),
           source = cheerio_text A d2 (cheerio_find A d2 el ''.client_sentence_list_link'')\<rparr>,
          d2))"

text \<open>
  \<^verbatim>\<open>selection.map(fn)\<close> with a callback that changes the document: the elements are
  visited in order, each on the document the earlier callbacks left.
\<close>

fun map_with_doc :: "('d \<Rightarrow> 'e \<Rightarrow> 'a \<times> 'd) \<Rightarrow> 'd \<Rightarrow> 'e list \<Rightarrow> 'a list \<times> 'd" where
  "map_with_doc f d [] = ([], d)"
| "map_with_doc f d (el # els) =
     (case f d el of (x, d1) \<Rightarrow>
        (case map_with_doc f d1 els of (xs, d2) \<Rightarrow> (x # xs, d2)))"

text \<open>
  The body of \<^verbatim>\<open>client_def_hd_hd\<close> after the title is four blocks, one for each of
  \<^verbatim>\<open>phsym\<close>, \<^verbatim>\<open>cdef\<close>, \<^verbatim>\<open>infs\<close> and \<^verbatim>\<open>sentences\<close>; each block is a
  function here, in the order of the source.
\<close>

definition phsym_block :: "('d, 'e) adapter \<Rightarrow> 'd \<Rightarrow> result \<Rightarrow> result" where
  "phsym_block A d result0 =
     (let prons' = cheerio_select A d ''.client_def_hd_pn_list''
      in if length prons' > 0 then
           (let result1 = result0\<lparr>phsym :=
                  Some (join []
                         (filter truthy
                           (map (\<lambda>el. cheerio_text A d (cheerio_find A d el ''.client_def_hd_pn''))
                             prons')))\<rparr>
            in if length (the (phsym result1)) = 0 then result1\<lparr>phsym := None\<rparr> else result1)
         else result0)"

definition cdef_block :: "('d, 'e) adapter \<Rightarrow> 'd \<Rightarrow> result \<Rightarrow> result" where
  "cdef_block A d result0 =
     (let defs' = cheerio_select A d ''.client_def_container .client_def_bar''
      in if length defs' > 0 then
           (let result1 = result0\<lparr>cdef :=
                  Some (filter (\<lambda>e. truthy (pos e) \<and> truthy (def e))
                         (map (\<lambda>el.
                                \<lparr>pos = cheerio_text A d (cheerio_find A d el ''.client_def_title_bar''),
                                 def = cheerio_text A d (cheerio_find A d el ''.client_def_list'')\<rparr>)
                           (filter
                             (\<lambda>el. length (cheerio_find A d el ''.client_def_list_word_Tag'') = 0)
                             defs')))\<rparr>
            in if length (the (cdef result1)) = 0 then result1\<lparr>cdef := None\<rparr> else result1)
         else result0)"

definition infs_block :: "('d, 'e) adapter \<Rightarrow> 'd \<Rightarrow> result \<Rightarrow> result" where
  "infs_block A d result0 =
     (let infs' = cheerio_select A d ''.client_word_change_word''
      in if length infs' > 0 then
           (let result1 = result0\<lparr>infs :=
                  Some (join (js '', '')
                         (filter truthy (map (\<lambda>el. trim (cheerio_text A d [el])) infs')))\<rparr>
            in if length (the (infs result1)) = 0 then result1\<lparr>infs := None\<rparr> else result1)
         else result0)"

definition sentences_block :: "('d, 'e) adapter \<Rightarrow> 'd \<Rightarrow> result \<Rightarrow> result \<times> 'd" where
  "sentences_block A d result0 =
     (let sens = cheerio_select A d ''.client_sentence_list''
      in if length sens > 0 then
           (case map_with_doc (sentence_of A) d sens of
              (ss, d') \<Rightarrow> (result0\<lparr>sentences := Some (take 4 ss)\<rparr>, d'))
         else (result0, d))"

definition client_def_hd_hd :: "('d, 'e) adapter \<Rightarrow> 'd \<Rightarrow> result \<Rightarrow> result \<times> 'd" where
  "client_def_hd_hd A d result0 =
     sentences_block A d
       (infs_block A d
         (cdef_block A d
           (phsym_block A d
             (result0\<lparr>title :=
                Some (cheerio_text A d (cheerio_select A d ''.client_def_hd_hd''))\<rparr>))))"

definition client_trans_head :: "('d, 'e) adapter \<Rightarrow> 'd \<Rightarrow> result \<Rightarrow> result \<times> 'd" where
  "client_trans_head A d result0 =
     (result0\<lparr>mt := Some (cheerio_text A d (cheerio_select A d ''.client_sen_cn''))\<rparr>, d)"

text \<open>
  The callback of \<^verbatim>\<open>$('.client_do_you_mean_area').each\<close>, on the array
  \<^verbatim>\<open>result.defs\<close>.
\<close>

definition push_area :: "('d, 'e) adapter \<Rightarrow> 'd \<Rightarrow> suggestion list \<Rightarrow> 'e \<Rightarrow> suggestion list" where
  "push_area A d acc area =
     (let defs' = cheerio_find A d area ''.client_do_you_mean_list''
      in if length defs' > 0 then
           acc @ [\<lparr>s_title = cheerio_text A d (cheerio_find A d area ''.client_do_you_mean_title''),
                   meanings =
                     map (\<lambda>el.
                           \<lparr>m_word = cheerio_text A d (cheerio_find A d el ''.client_do_you_mean_list_word''),
                            m_def = cheerio_text A d (cheerio_find A d el ''.client_do_you_mean_list_def'')\<rparr>)
                       defs'\<rparr>]
         else acc)"

definition client_do_you_mean_title_bar ::
  "('d, 'e) adapter \<Rightarrow> 'd \<Rightarrow> result \<Rightarrow> result \<times> 'd" where
  "client_do_you_mean_title_bar A d result0 =
     (let result1 = result0\<lparr>title :=
            Some (cheerio_text A d (cheerio_select A d ''.client_do_you_mean_title_bar''))\<rparr>
      in (result1\<lparr>defs :=
            Some (foldl (push_area A d) [] (cheerio_select A d ''.client_do_you_mean_area''))\<rparr>, d))"

section \<open>The extractor of source B (youdao)\<close>

text \<open>
  The callback of \<^verbatim>\<open>$('#authority .ol li').map\<close> in \<^verbatim>\<open>handle_youdao\<close>.
\<close>

definition example_of :: "('d, 'e) adapter \<Rightarrow> 'd \<Rightarrow> 'e \<Rightarrow> jsstring \<times> 'd" where
  "example_of A d el =
     (let d1 = replaceWith A d (cheerio_find A d el ''b'')
                 (\<lambda>d' el'. chalk_cyan A (cheerio_text A d' [el']));
          via = cheerio_find A d1 el ''.example-via'';
          pos' = chalk_dim A (js ''('' @ cheerio_text A d1 via @ js '')'');
          d2 = replaceWith A d1 via (\<lambda>d' el'. [])
      in (trim (cheerio_text A d2 (cheerio_find A d2 el ''p'')) @ js ''   '' @ pos', d2))"

text \<open>
  \<^verbatim>\<open>($('.star').attr('class')?.match(/\d+/) || [0])[0]\<close>
\<close>

definition stars_of :: "jsstring option \<Rightarrow> jsvalue" where
  "stars_of cls =
     (case cls of
        None \<Rightarrow> JNum 0
      | Some c \<Rightarrow> (case match_digits c of None \<Rightarrow> JNum 0 | Some m \<Rightarrow> JStr m))"

definition handle_youdao :: "('d, 'e) adapter \<Rightarrow> 'd \<Rightarrow> result \<Rightarrow> result \<times> 'd" where
  "handle_youdao A d result0 =
     (let result1 = result0\<lparr>title := Some (cheerio_text A d (cheerio_select A d ''.keyword''))\<rparr>;
          result2 = result1\<lparr>stars :=
            Some (stars_of (cheerio_attr A d (cheerio_select A d ''.star'') ''class''))\<rparr>;
          result3 = result2\<lparr>rank := Some (cheerio_text A d (cheerio_select A d ''.rank''))\<rparr>;
          result4 = result3\<lparr>pattern :=
            Some (normalize (cheerio_text A d (cheerio_select A d ''.pattern'')))\<rparr>;
          result5 = result4\<lparr>prons :=
            Some (join (js '' '')
                   (filter truthy
                     (map (\<lambda>el. normalize (cheerio_text A d [el]))
                       (cheerio_select A d ''.baav .pronounce''))))\<rparr>;
          result6 = result5\<lparr>basic :=
            Some (filter truthy
                   (map (\<lambda>el. normalize (cheerio_text A d [el]))
                     (cheerio_select A d ''#phrsListTab .trans-container li'')))\<rparr>;
          result7 = result6\<lparr>discrimination :=
            Some (normalize (cheerio_text A d (cheerio_select A d ''#discriminate'')))\<rparr>
      in (case map_with_doc (example_of A) d (cheerio_select A d ''#authority .ol li'') of
            (ss, d') \<Rightarrow>
              ((result7\<lparr>sentence := Some ss\<rparr>)\<lparr>translation :=
                  Some (normalize
                         (cheerio_text A d' (cheerio_select A d' ''#fanyiToggle .trans-container'')))\<rparr>,
               d')))"

section \<open>Classification: \<^verbatim>\<open>searchWord\<close> up to the rendering\<close>

text \<open>
  \<open>dict\<close> is the option \<^verbatim>\<open>options.dict\<close> (\<open>None\<close> when it is not given: the default is
  \<^verbatim>\<open>'bing'\<close>), \<open>response\<close> is what the request returned. The last argument is the list of
  the documents parsed in the process so far, in the state the extractors left them in;
  \<^verbatim>\<open>cheerio.load\<close> makes a new document on every call. The result is the record as it is
  when rendering starts.
\<close>

definition searchWord ::
  "('d, 'e) adapter \<Rightarrow> jsstring option \<Rightarrow> response \<Rightarrow> 'd list \<Rightarrow> result outcome \<times> 'd list" where
  "searchWord A dict response docs =
     (let dict' = (case dict of None \<Rightarrow> js ''bing'' | Some x \<Rightarrow> x);
          result0 = empty_result
      in if dict' = js ''bing'' then
           (case text_response A response of
              Exit m \<Rightarrow> (Exit m, docs)
            | Return markup \<Rightarrow>
                (let d = cheerio_load A markup
                 in case (if length (cheerio_select A d ''.client_def_hd_hd'') > 0 then
                            client_def_hd_hd A d result0
                          else if length (cheerio_select A d ''.client_trans_head'') > 0 then
                            client_trans_head A d result0
                          else if length (cheerio_select A d ''.client_do_you_mean_title_bar'') > 0 then
                            client_do_you_mean_title_bar A d result0
                          else (result0, d))
                    of (r, d') \<Rightarrow> (Return r, docs @ [d'])))
         else if dict' = js ''youdao'' then
           (case text_response A response of
              Exit m \<Rightarrow> (Exit m, docs)
            | Return markup \<Rightarrow>
                (let d = cheerio_load A markup;
                     typo = cheerio_select A d ''.error-typo''
                 in case (if length typo > 0 then
                            (result0\<lparr>list := Some (cheerio_text A d typo)\<rparr>, d)
                          else handle_youdao A d result0)
                    of (r, d') \<Rightarrow> (Return r, docs @ [d'])))
         else (Return result0, docs))"

section \<open>A tree implementation of the adapter\<close>

text \<open>
  Modelled from the spec: an implementation of the Tree Query Adapter of section 6 on a
  document tree (selection by class, identifier or tag name in document order, the
  descendant combinator and the comma of selectors, concatenated descendant text,
  attribute read, selection below an element, replacement of a node). It is the
  implementation the examples run on. An element is referred to by its path from the root
  (the positions of the children); a replaced element gives way to one text node, so that
  the paths of the other elements stay.
\<close>

datatype node = Text jsstring | Element string "(string \<times> jsstring) list" "node list"

fun textContent :: "node \<Rightarrow> jsstring" where
  "textContent (Text s) = s"
| "textContent (Element tag attrs kids) = concat (map textContent kids)"

fun node_at :: "node \<Rightarrow> nat list \<Rightarrow> node option" where
  "node_at n [] = Some n"
| "node_at (Text s) (i # p) = None"
| "node_at (Element tag attrs kids) (i # p) =
     (if i < length kids then node_at (kids ! i) p else None)"

text \<open>The elements below the path \<open>p\<close>, whose children are \<open>ns\<close> from position \<open>i\<close> on.\<close>

fun elements_from :: "nat list \<Rightarrow> nat \<Rightarrow> node list \<Rightarrow> nat list list" where
  "elements_from p i [] = []"
| "elements_from p i (Text s # ns) = elements_from p (Suc i) ns"
| "elements_from p i (Element tag attrs kids # ns) =
     (p @ [i]) # elements_from (p @ [i]) 0 kids @ elements_from p (Suc i) ns"

definition elements_in :: "nat list \<Rightarrow> node \<Rightarrow> nat list list" where
  "elements_in p n = (case n of Text s \<Rightarrow> [] | Element tag attrs kids \<Rightarrow> elements_from p 0 kids)"

text \<open>The whitespace-separated tokens of a \<^verbatim>\<open>class\<close> attribute.\<close>

fun tokens :: "jsstring \<Rightarrow> jsstring \<Rightarrow> jsstring list" where
  "tokens cur [] = (if cur = [] then [] else [cur])"
| "tokens cur (c # cs) =
     (if is_ws c then (if cur = [] then tokens [] cs else cur # tokens [] cs)
      else tokens (cur @ [c]) cs)"

datatype simple = Class string | Id string | Tag string

fun split_on :: "char \<Rightarrow> string \<Rightarrow> string list" where
  "split_on c [] = [[]]"
| "split_on c (x # xs) =
     (if x = c then [] # split_on c xs
      else (case split_on c xs of [] \<Rightarrow> [[x]] | w # ws \<Rightarrow> (x # w) # ws))"

definition parse_simple :: "string \<Rightarrow> simple" where
  "parse_simple w =
     (case w of
        [] \<Rightarrow> Tag []
      | c # cs \<Rightarrow> if c = CHR ''.'' then Class cs else if c = CHR ''#'' then Id cs else Tag w)"

text \<open>A selector: alternatives separated by commas, each a chain of descendants.\<close>

definition parse_selector :: "string \<Rightarrow> simple list list" where
  "parse_selector sel =
     map (\<lambda>alt. map parse_simple (filter (\<lambda>w. w \<noteq> []) (split_on CHR '' '' alt)))
       (split_on CHR '','' sel)"

fun matches_simple :: "simple \<Rightarrow> node \<Rightarrow> bool" where
  "matches_simple s (Text t) = False"
| "matches_simple (Class c) (Element tag attrs kids) =
     (case map_of attrs ''class'' of None \<Rightarrow> False | Some v \<Rightarrow> js c \<in> set (tokens [] v))"
| "matches_simple (Id i) (Element tag attrs kids) = (map_of attrs ''id'' = Some (js i))"
| "matches_simple (Tag t) (Element tag attrs kids) = (tag = t)"

definition matches_at :: "node \<Rightarrow> simple \<Rightarrow> nat list \<Rightarrow> bool" where
  "matches_at root s p = (case node_at root p of None \<Rightarrow> False | Some n \<Rightarrow> matches_simple s n)"

text \<open>The rest of a chain, nearest first, matched by ancestors of the element at \<open>p\<close>.\<close>

fun ancestors_match :: "node \<Rightarrow> simple list \<Rightarrow> nat list \<Rightarrow> bool" where
  "ancestors_match root [] p = True"
| "ancestors_match root (s # ss) p =
     list_ex (\<lambda>k. matches_at root s (take k p) \<and> ancestors_match root ss (take k p))
       [0..<length p]"

definition matches :: "node \<Rightarrow> simple list list \<Rightarrow> nat list \<Rightarrow> bool" where
  "matches root alts p =
     list_ex (\<lambda>alt. case rev alt of
                      [] \<Rightarrow> False
                    | s # ss \<Rightarrow> matches_at root s p \<and> ancestors_match root ss p)
       alts"

definition dom_select :: "node \<Rightarrow> string \<Rightarrow> nat list list" where
  "dom_select root sel = filter (matches root (parse_selector sel)) (elements_in [] root)"

definition dom_find :: "node \<Rightarrow> nat list \<Rightarrow> string \<Rightarrow> nat list list" where
  "dom_find root el sel =
     (case node_at root el of
        None \<Rightarrow> []
      | Some n \<Rightarrow> filter (matches root (parse_selector sel)) (elements_in el n))"

definition dom_text :: "node \<Rightarrow> nat list list \<Rightarrow> jsstring" where
  "dom_text root els =
     concat (map (\<lambda>p. case node_at root p of None \<Rightarrow> [] | Some n \<Rightarrow> textContent n) els)"

fun escape :: "jsstring \<Rightarrow> jsstring" where
  "escape [] = []"
| "escape (c # cs) =
     (if c = 0x26 then js ''&amp;'' else if c = 0x3C then js ''&lt;''
      else if c = 0x3E then js ''&gt;'' else if c = 0x22 then js ''&quot;'' else [c]) @ escape cs"

fun outer_html :: "node \<Rightarrow> jsstring" where
  "outer_html (Text s) = escape s"
| "outer_html (Element tag attrs kids) =
     js ''<'' @ js tag @
     concat (map (\<lambda>kv. js '' '' @ js (fst kv) @ js ''=\"'' @ escape (snd kv) @ js ''\"'') attrs) @
     js ''>'' @ concat (map outer_html kids) @ js ''</'' @ js tag @ js ''>''"

definition dom_html :: "node \<Rightarrow> nat list list \<Rightarrow> jsstring option" where
  "dom_html root els =
     (case els of
        [] \<Rightarrow> None
      | p # ps \<Rightarrow>
          (case node_at root p of
             Some (Element tag attrs kids) \<Rightarrow> Some (concat (map outer_html kids))
           | _ \<Rightarrow> None))"

definition dom_attr :: "node \<Rightarrow> nat list list \<Rightarrow> string \<Rightarrow> jsstring option" where
  "dom_attr root els name =
     (case els of
        [] \<Rightarrow> None
      | p # ps \<Rightarrow>
          (case node_at root p of
             Some (Element tag attrs kids) \<Rightarrow> map_of attrs name
           | _ \<Rightarrow> None))"

fun replace_at :: "node \<Rightarrow> nat list \<Rightarrow> node \<Rightarrow> node" where
  "replace_at n [] new = new"
| "replace_at (Text s) (i # p) new = Text s"
| "replace_at (Element tag attrs kids) (i # p) new =
     Element tag attrs
       (if i < length kids then kids[i := replace_at (kids ! i) p new] else kids)"

text \<open>The root has no parent: replacing it does nothing.\<close>

definition dom_replace :: "node \<Rightarrow> nat list \<Rightarrow> jsstring \<Rightarrow> node" where
  "dom_replace root el content = (if el = [] then root else replace_at root el (Text content))"

text \<open>
  The adapter on trees whose parser returns the tree \<open>page\<close>; the colouring functions are
  those of chalk with colours off (they return the text as it is).
\<close>

definition dom_adapter :: "node \<Rightarrow> (node, nat list) adapter" where
  "dom_adapter page =
     \<lparr>cheerio_load = (\<lambda>markup. page), cheerio_select = dom_select, cheerio_find = dom_find,
      cheerio_text = dom_text, cheerio_html = dom_html, cheerio_attr = dom_attr,
      cheerio_replace = dom_replace,
      chalk_red = (\<lambda>s. s), chalk_cyan = (\<lambda>s. s), chalk_dim = (\<lambda>s. s)\<rparr>"

section \<open>The concise definitions, as the specification words them\<close>

text \<open>
  Section 4.2 of the specification: find all definition-bar items within the definition
  container, exclude any bar that itself contains a word-tag marker, map each remaining bar
  to a (partOfSpeech, definition) pair from its title-bar and list sub-elements, keep only
  pairs where both parts are non-empty; omit the field if the resulting sequence is empty.
\<close>

definition cdef_spec :: "('d, 'e) adapter \<Rightarrow> 'd \<Rightarrow> cdef_entry list option" where
  "cdef_spec A d =
     (let bars = cheerio_select A d ''.client_def_container .client_def_bar'';
          genuine = filter (\<lambda>b. cheerio_find A d b ''.client_def_list_word_Tag'' = []) bars;
          pairs = map (\<lambda>b. \<lparr>pos = cheerio_text A d (cheerio_find A d b ''.client_def_title_bar''),
                             def = cheerio_text A d (cheerio_find A d b ''.client_def_list'')\<rparr>)
                    genuine;
          kept = filter (\<lambda>e. pos e \<noteq> [] \<and> def e \<noteq> []) pairs
      in if kept = [] then None else Some kept)"

section \<open>Documents in the memory of the process\<close>




section \<open>Example pages\<close>

definition ok_response :: response where
  "ok_response = \<lparr>ok = True, body = [], statusText = []\<rparr>"

definition failed_response :: response where
  "failed_response =
     \<lparr>ok = False, body = js ''<!doctype html>'', statusText = js ''Too Many Requests''\<rparr>"

definition empty_page :: node where
  "empty_page = Element ''html'' [] []"

text \<open>A page of source A with the full-definition marker and the suggestion-title marker.\<close>

definition both_page :: node where
  "both_page = Element ''html'' []
     [Element ''div'' [(''class'', js ''client_def_hd_hd'')] [Text (js ''hello'')],
      Element ''div'' [(''class'', js ''client_do_you_mean_title_bar'')] [Text (js ''help'')]]"

definition trans_page :: node where
  "trans_page = Element ''html'' []
     [Element ''div'' [(''class'', js ''client_trans_head'')] [],
      Element ''div'' [(''class'', js ''client_sen_cn'')] [Text (js ''ni hao'')]]"

definition sugg_page :: node where
  "sugg_page = Element ''html'' []
     [Element ''div'' [(''class'', js ''client_do_you_mean_title_bar'')] [Text (js ''helo'')]]"

text \<open>A page of source A with five sentence-list items; the first has an English fragment.\<close>

definition sentence_item :: "node list \<Rightarrow> string \<Rightarrow> node" where
  "sentence_item kids s =
     Element ''div'' [(''class'', js ''client_sentence_list'')]
       (kids @ [Element ''a'' [(''class'', js ''client_sentence_list_link'')] [Text (js s)]])"

definition sentences_page :: node where
  "sentences_page = Element ''html'' []
     [Element ''div'' [(''class'', js ''client_def_hd_hd'')] [Text (js ''hi'')],
      sentence_item
        [Element ''div'' [(''class'', js ''client_sen_en'')]
           [Element ''span'' [(''class'', js ''client_sen_en_word'')] [Text (js ''Hi'')],
            Text (js ''!'')]] ''a'',
      sentence_item [] ''b'', sentence_item [] ''c'', sentence_item [] ''d'',
      sentence_item [] ''e'']"

text \<open>
  A page of source A with two definition bars; the first contains a word-tag marker.
\<close>

definition cdef_page :: node where
  "cdef_page = Element ''html'' []
     [Element ''div'' [(''class'', js ''client_def_hd_hd'')] [Text (js ''hello'')],
      Element ''div'' [(''class'', js ''client_def_container'')]
        [Element ''div'' [(''class'', js ''client_def_bar'')]
           [Element ''span'' [(''class'', js ''client_def_list_word_Tag'')] [Text (js ''Web'')],
            Element ''span'' [(''class'', js ''client_def_title_bar'')] [Text (js ''web'')],
            Element ''span'' [(''class'', js ''client_def_list'')] [Text (js ''hi'')]],
         Element ''div'' [(''class'', js ''client_def_bar'')]
           [Element ''span'' [(''class'', js ''client_def_title_bar'')] [Text (js ''int.'')],
            Element ''span'' [(''class'', js ''client_def_list'')] [Text (js ''a greeting'')]]]]"


text \<open>
  A page of source B with a headword, a star rating and one example sentence, the record
  \<^verbatim>\<open>handle_youdao\<close> builds from it, and the tree it leaves.
\<close>

definition youdao_page :: node where
  "youdao_page = Element ''html'' []
     [Element ''span'' [(''class'', js ''keyword'')] [Text (js ''hello'')],
      Element ''span'' [(''class'', js ''star star4'')] [],
      Element ''div'' [(''id'', js ''authority'')]
        [Element ''ul'' [(''class'', js ''ol'')]
           [Element ''li'' []
              [Element ''p'' [] [Element ''b'' [] [Text (js ''Hello'')], Text (js '' you '')],
               Element ''p'' [(''class'', js ''example-via'')] [Text (js ''BBC'')]]]]]"

definition youdao_page_result :: result where
  "youdao_page_result =
     empty_result\<lparr>title := Some (js ''hello''), stars := Some (JStr (js ''4'')),
       rank := Some [], pattern := Some [], prons := Some [], basic := Some [],
       discrimination := Some [], sentence := Some [js ''Hello you   (BBC)''],
       translation := Some []\<rparr>"

definition youdao_page_after :: node where
  "youdao_page_after = Element ''html'' []
     [Element ''span'' [(''class'', js ''keyword'')] [Text (js ''hello'')],
      Element ''span'' [(''class'', js ''star star4'')] [],
      Element ''div'' [(''id'', js ''authority'')]
        [Element ''ul'' [(''class'', js ''ol'')]
           [Element ''li'' []
              [Element ''p'' [] [Text (js ''Hello''), Text (js '' you '')], Text []]]]]"

text \<open>The record \<^verbatim>\<open>handle_youdao\<close> builds from a page with no marker.\<close>

definition youdao_empty_result :: result where
  "youdao_empty_result =
     empty_result\<lparr>title := Some [], stars := Some (JNum 0), rank := Some [],
       pattern := Some [], prons := Some [], basic := Some [], discrimination := Some [],
       sentence := Some [], translation := Some []\<rparr>"

text \<open>Pages of source B with the typo marker, and a headword beside it.\<close>

definition typo_page :: node where
  "typo_page = Element ''html'' []
     [Element ''p'' [(''class'', js ''error-typo'')] [Text (js ''not found'')],
      Element ''span'' [(''class'', js ''keyword'')] [Text (js ''helo'')]]"

definition typo_empty_page :: node where
  "typo_empty_page = Element ''html'' [] [Element ''p'' [(''class'', js ''error-typo'')] []]"

text \<open>The error page of a failed request.\<close>

definition error_page :: node where
  "error_page = Element ''html'' []
     [Element ''span'' [(''class'', js ''sc_error'')] [Text (js ''Rate limited'')]]"

section \<open>Whitespace normalisation\<close>

lemma is_ws_space: "is_ws 0x20"
  by (simp add: is_ws_def)

lemma collapsed_Cons:
  "collapsed (c # cs) \<longleftrightarrow>
     (if is_ws c then c = 0x20 \<and> (cs = [] \<or> \<not> is_ws (hd cs)) else True) \<and> collapsed cs"
  by (cases cs) auto

lemma hd_replace_ws: "cs \<noteq> [] \<Longrightarrow> \<not> is_ws (hd cs) \<Longrightarrow> hd (replace_ws cs) = hd cs"
  by (cases cs) auto

lemma replace_ws_Nil_iff: "replace_ws cs = [] \<longleftrightarrow> cs = []"
  by (cases cs) auto

lemma collapsed_replace_ws: "collapsed (replace_ws s)"
proof (induction s rule: replace_ws.induct)
  case 1
  show ?case by simp
next
  case (2 c cs)
  show ?case
  proof (cases "is_ws c")
    case True
    let ?r = "dropWhile is_ws cs"
    have "replace_ws ?r = [] \<or> \<not> is_ws (hd (replace_ws ?r))"
    proof (cases "?r = []")
      case True
      then show ?thesis by (simp only: replace_ws.simps) simp
    next
      case False
      then have nw: "\<not> is_ws (hd ?r)" by (rule hd_dropWhile)
      from False nw have "hd (replace_ws ?r) = hd ?r" by (rule hd_replace_ws)
      with nw show ?thesis by (simp only:) simp
    qed
    with True 2 show ?thesis
      by (simp add: collapsed_Cons is_ws_space)
  next
    case False
    with 2 show ?thesis
      by (simp add: collapsed_Cons)
  qed
qed

lemma replace_ws_collapsed: "collapsed s \<Longrightarrow> replace_ws s = s"
proof (induction s rule: replace_ws.induct)
  case 1
  show ?case by simp
next
  case (2 c cs)
  from "2.prems" have cs: "collapsed cs"
    by (simp add: collapsed_Cons)
  show ?case
  proof (cases "is_ws c")
    case True
    with "2.prems" have c: "c = 0x20" and nxt: "cs = [] \<or> \<not> is_ws (hd cs)"
      by (simp_all add: collapsed_Cons)
    from nxt have "dropWhile is_ws cs = cs"
      by (cases cs) auto
    with True c cs "2.IH"(1) show ?thesis by simp
  next
    case False
    with cs "2.IH"(2) show ?thesis by simp
  qed
qed

lemma collapsed_append_left: "collapsed (xs @ ys) \<Longrightarrow> collapsed xs"
proof (induction xs)
  case Nil
  show ?case by simp
next
  case (Cons x xs)
  then show ?case
    by (cases xs) (auto simp: collapsed_Cons split: if_splits)
qed

lemma collapsed_append_right: "collapsed (xs @ ys) \<Longrightarrow> collapsed ys"
  by (induction xs) (auto simp: collapsed_Cons)

lemma trim_infix: "\<exists>a b. s = a @ trim s @ b"
proof -
  let ?m = "dropWhile is_ws s"
  have 1: "s = takeWhile is_ws s @ ?m" by simp
  have "rev (rev ?m) = rev (takeWhile is_ws (rev ?m) @ dropWhile is_ws (rev ?m))"
    by (simp only: takeWhile_dropWhile_id)
  then have 2: "?m = trim s @ rev (takeWhile is_ws (rev ?m))"
    by (simp only: rev_append rev_rev_ident trim_def)
  from 1 2 show ?thesis by metis
qed

lemma collapsed_trim: "collapsed s \<Longrightarrow> collapsed (trim s)"
proof -
  assume c: "collapsed s"
  obtain a b where s: "s = a @ trim s @ b" using trim_infix by blast
  from c s have "collapsed (a @ trim s @ b)" by simp
  then have "collapsed (trim s @ b)" by (rule collapsed_append_right)
  then show ?thesis by (rule collapsed_append_left)
qed

lemma dropWhile_id_hd: "xs = [] \<or> \<not> P (hd xs) \<Longrightarrow> dropWhile P xs = xs"
  by (cases xs) auto

lemma trim_trim: "trim (trim s) = trim s"
proof -
  let ?m = "dropWhile is_ws s"
  let ?r = "dropWhile is_ws (rev ?m)"
  have r: "?r = [] \<or> \<not> is_ws (hd ?r)"
    using hd_dropWhile [of is_ws "rev ?m"] by blast
  have "rev ?r = [] \<or> \<not> is_ws (hd (rev ?r))"
  proof (cases "?r = []")
    case True
    then show ?thesis by simp
  next
    case False
    have "?m \<noteq> []"
    proof
      assume "?m = []"
      then have "?r = []" by (simp only: rev.simps dropWhile.simps)
      with False show False by contradiction
    qed
    then have hm: "\<not> is_ws (hd ?m)" by (rule hd_dropWhile)
    obtain t where t: "rev ?m = t @ ?r"
      by (metis takeWhile_dropWhile_id)
    then have "?m = rev ?r @ rev t"
      by (metis rev_append rev_rev_ident)
    with False have "hd ?m = hd (rev ?r)" by (metis hd_append2 rev_is_Nil_conv)
    with hm show ?thesis by simp
  qed
  then have "dropWhile is_ws (rev ?r) = rev ?r" by (rule dropWhile_id_hd)
  moreover from r have "dropWhile is_ws ?r = ?r" by (rule dropWhile_id_hd)
  ultimately show ?thesis by (simp add: trim_def)
qed

section \<open>What the extractors leave in the record\<close>

lemma length_map_with_doc: "length (fst (map_with_doc f d els)) = length els"
proof (induction els arbitrary: d)
  case Nil
  show ?case by simp
next
  case (Cons el els)
  obtain x d1 where f: "f d el = (x, d1)" by (cases "f d el")
  obtain xs d2 where m: "map_with_doc f d1 els = (xs, d2)" by (cases "map_with_doc f d1 els")
  from Cons.IH [of d1] m have "length xs = length els" by simp
  with f m show ?case by simp
qed

lemma map_with_doc_nth:
  "i < length els \<Longrightarrow> \<exists>d'. fst (map_with_doc f d els) ! i = fst (f d' (els ! i))"
proof (induction els arbitrary: d i)
  case Nil
  then show ?case by simp
next
  case (Cons el els)
  obtain x d1 where f: "f d el = (x, d1)" by (cases "f d el")
  obtain xs d2 where m: "map_with_doc f d1 els = (xs, d2)" by (cases "map_with_doc f d1 els")
  show ?case
  proof (cases i)
    case 0
    with f m have "fst (map_with_doc f d (el # els)) ! i = fst (f d ((el # els) ! i))" by simp
    then show ?thesis ..
  next
    case (Suc j)
    with Cons.prems have "j < length els" by simp
    from Cons.IH [OF this, of d1] obtain d' where
      "fst (map_with_doc f d1 els) ! j = fst (f d' (els ! j))" ..
    with f m Suc have "fst (map_with_doc f d (el # els)) ! i = fst (f d' ((el # els) ! i))"
      by simp
    then show ?thesis ..
  qed
qed


lemma phsym_block_others:
  "title (phsym_block A d r) = title r" "cdef (phsym_block A d r) = cdef r"
  "infs (phsym_block A d r) = infs r" "sentences (phsym_block A d r) = sentences r"
  "mt (phsym_block A d r) = mt r" "defs (phsym_block A d r) = defs r"
  "list (phsym_block A d r) = list r" "stars (phsym_block A d r) = stars r"
  "rank (phsym_block A d r) = rank r" "pattern (phsym_block A d r) = pattern r"
  "prons (phsym_block A d r) = prons r" "basic (phsym_block A d r) = basic r"
  "discrimination (phsym_block A d r) = discrimination r"
  "sentence (phsym_block A d r) = sentence r" "translation (phsym_block A d r) = translation r"
  by (simp_all add: phsym_block_def Let_def)

lemma cdef_block_cdef:
  "cdef (cdef_block A d r) =
     (let defs' = cheerio_select A d ''.client_def_container .client_def_bar'';
          c = filter (\<lambda>e. truthy (pos e) \<and> truthy (def e))
                (map (\<lambda>el.
                       \<lparr>pos = cheerio_text A d (cheerio_find A d el ''.client_def_title_bar''),
                        def = cheerio_text A d (cheerio_find A d el ''.client_def_list'')\<rparr>)
                  (filter (\<lambda>el. length (cheerio_find A d el ''.client_def_list_word_Tag'') = 0)
                    defs'))
      in if defs' = [] then cdef r else if c = [] then None else Some c)"
  by (simp add: cdef_block_def Let_def)

lemma cdef_block_others:
  "title (cdef_block A d r) = title r" "phsym (cdef_block A d r) = phsym r"
  "infs (cdef_block A d r) = infs r" "sentences (cdef_block A d r) = sentences r"
  "mt (cdef_block A d r) = mt r" "defs (cdef_block A d r) = defs r"
  "list (cdef_block A d r) = list r" "stars (cdef_block A d r) = stars r"
  "rank (cdef_block A d r) = rank r" "pattern (cdef_block A d r) = pattern r"
  "prons (cdef_block A d r) = prons r" "basic (cdef_block A d r) = basic r"
  "discrimination (cdef_block A d r) = discrimination r"
  "sentence (cdef_block A d r) = sentence r" "translation (cdef_block A d r) = translation r"
  by (simp_all add: cdef_block_def Let_def)


lemma infs_block_others:
  "title (infs_block A d r) = title r" "phsym (infs_block A d r) = phsym r"
  "cdef (infs_block A d r) = cdef r" "sentences (infs_block A d r) = sentences r"
  "mt (infs_block A d r) = mt r" "defs (infs_block A d r) = defs r"
  "list (infs_block A d r) = list r" "stars (infs_block A d r) = stars r"
  "rank (infs_block A d r) = rank r" "pattern (infs_block A d r) = pattern r"
  "prons (infs_block A d r) = prons r" "basic (infs_block A d r) = basic r"
  "discrimination (infs_block A d r) = discrimination r"
  "sentence (infs_block A d r) = sentence r" "translation (infs_block A d r) = translation r"
  by (simp_all add: infs_block_def Let_def)

lemma sentences_block_sentences:
  "sentences (fst (sentences_block A d r)) =
     (let sens = cheerio_select A d ''.client_sentence_list''
      in if sens = [] then sentences r
         else Some (take 4 (fst (map_with_doc (sentence_of A) d sens))))"
  by (simp add: sentences_block_def Let_def split: prod.split)

lemma sentences_block_others:
  "title (fst (sentences_block A d r)) = title r" "phsym (fst (sentences_block A d r)) = phsym r"
  "cdef (fst (sentences_block A d r)) = cdef r" "infs (fst (sentences_block A d r)) = infs r"
  "mt (fst (sentences_block A d r)) = mt r" "defs (fst (sentences_block A d r)) = defs r"
  "list (fst (sentences_block A d r)) = list r" "stars (fst (sentences_block A d r)) = stars r"
  "rank (fst (sentences_block A d r)) = rank r" "pattern (fst (sentences_block A d r)) = pattern r"
  "prons (fst (sentences_block A d r)) = prons r" "basic (fst (sentences_block A d r)) = basic r"
  "discrimination (fst (sentences_block A d r)) = discrimination r"
  "sentence (fst (sentences_block A d r)) = sentence r"
  "translation (fst (sentences_block A d r)) = translation r"
  by (simp_all add: sentences_block_def Let_def split: prod.split)

lemmas block_others = phsym_block_others cdef_block_others infs_block_others sentences_block_others

lemma client_def_hd_hd_title:
  "title (fst (client_def_hd_hd A d r)) =
     Some (cheerio_text A d (cheerio_select A d ''.client_def_hd_hd''))"
  by (simp add: client_def_hd_hd_def block_others)


lemma client_def_hd_hd_cdef:
  "cdef (fst (client_def_hd_hd A d r)) = cdef (cdef_block A d r)"
  by (simp add: client_def_hd_hd_def block_others cdef_block_cdef Let_def)


lemma client_def_hd_hd_sentences:
  "sentences (fst (client_def_hd_hd A d r)) = sentences (fst (sentences_block A d r))"
  by (simp add: client_def_hd_hd_def block_others sentences_block_sentences Let_def)

lemma client_def_hd_hd_others:
  "mt (fst (client_def_hd_hd A d r)) = mt r"
  "defs (fst (client_def_hd_hd A d r)) = defs r"
  "list (fst (client_def_hd_hd A d r)) = list r"
  "stars (fst (client_def_hd_hd A d r)) = stars r"
  "rank (fst (client_def_hd_hd A d r)) = rank r"
  "pattern (fst (client_def_hd_hd A d r)) = pattern r"
  "prons (fst (client_def_hd_hd A d r)) = prons r"
  "basic (fst (client_def_hd_hd A d r)) = basic r"
  "discrimination (fst (client_def_hd_hd A d r)) = discrimination r"
  "sentence (fst (client_def_hd_hd A d r)) = sentence r"
  "translation (fst (client_def_hd_hd A d r)) = translation r"
  by (simp_all add: client_def_hd_hd_def block_others)

lemma handle_youdao_fields:
  "title (fst (handle_youdao A d r)) = Some (cheerio_text A d (cheerio_select A d ''.keyword''))"
  "stars (fst (handle_youdao A d r)) =
     Some (stars_of (cheerio_attr A d (cheerio_select A d ''.star'') ''class''))"
  "rank (fst (handle_youdao A d r)) = Some (cheerio_text A d (cheerio_select A d ''.rank''))"
  "pattern (fst (handle_youdao A d r)) =
     Some (normalize (cheerio_text A d (cheerio_select A d ''.pattern'')))"
  "prons (fst (handle_youdao A d r)) =
     Some (join (js '' '')
            (filter truthy
              (map (\<lambda>el. normalize (cheerio_text A d [el]))
                (cheerio_select A d ''.baav .pronounce''))))"
  "basic (fst (handle_youdao A d r)) =
     Some (filter truthy
            (map (\<lambda>el. normalize (cheerio_text A d [el]))
              (cheerio_select A d ''#phrsListTab .trans-container li'')))"
  "discrimination (fst (handle_youdao A d r)) =
     Some (normalize (cheerio_text A d (cheerio_select A d ''#discriminate'')))"
  "sentence (fst (handle_youdao A d r)) =
     Some (fst (map_with_doc (example_of A) d (cheerio_select A d ''#authority .ol li'')))"
  "translation (fst (handle_youdao A d r)) =
     Some (normalize
            (cheerio_text A (snd (handle_youdao A d r))
              (cheerio_select A (snd (handle_youdao A d r)) ''#fanyiToggle .trans-container'')))"
  by (simp_all add: handle_youdao_def Let_def split: prod.split)

lemma handle_youdao_others:
  "phsym (fst (handle_youdao A d r)) = phsym r" "cdef (fst (handle_youdao A d r)) = cdef r"
  "infs (fst (handle_youdao A d r)) = infs r" "sentences (fst (handle_youdao A d r)) = sentences r"
  "mt (fst (handle_youdao A d r)) = mt r" "defs (fst (handle_youdao A d r)) = defs r"
  "list (fst (handle_youdao A d r)) = list r"
  by (simp_all add: handle_youdao_def Let_def split: prod.split)

lemma js_youdao_bing: "js ''youdao'' \<noteq> js ''bing''"
  by (simp add: js_def)

lemma searchWord_bing:
  assumes "ok response" and "dict = None \<or> dict = Some (js ''bing'')"
  shows "searchWord A dict response docs =
     (let d = cheerio_load A (body response);
          rd = (if cheerio_select A d ''.client_def_hd_hd'' \<noteq> [] then
                  client_def_hd_hd A d empty_result
                else if cheerio_select A d ''.client_trans_head'' \<noteq> [] then
                  client_trans_head A d empty_result
                else if cheerio_select A d ''.client_do_you_mean_title_bar'' \<noteq> [] then
                  client_do_you_mean_title_bar A d empty_result
                else (empty_result, d))
      in (Return (fst rd), docs @ [snd rd]))"
  using assms
  by (auto simp add: searchWord_def text_response_def Let_def split: prod.split)

lemma searchWord_youdao:
  assumes "ok response" and "dict = Some (js ''youdao'')"
  shows "searchWord A dict response docs =
     (let d = cheerio_load A (body response);
          typo = cheerio_select A d ''.error-typo'';
          rd = (if typo \<noteq> [] then (empty_result\<lparr>list := Some (cheerio_text A d typo)\<rparr>, d)
                else handle_youdao A d empty_result)
      in (Return (fst rd), docs @ [snd rd]))"
  using assms
  by (auto simp add: searchWord_def text_response_def Let_def js_youdao_bing split: prod.split)

lemma empty_result_fields:
  "title empty_result = None" "phsym empty_result = None" "cdef empty_result = None"
  "infs empty_result = None" "sentences empty_result = None" "mt empty_result = None"
  "defs empty_result = None" "list empty_result = None" "stars empty_result = None"
  "rank empty_result = None" "pattern empty_result = None" "prons empty_result = None"
  "basic empty_result = None" "discrimination empty_result = None"
  "sentence empty_result = None" "translation empty_result = None"
  by (simp_all add: empty_result_def)



lemma match_digits_none: "list_all (\<lambda>x. \<not> is_digit x) c \<Longrightarrow> match_digits c = None"
  by (simp add: match_digits_def list_all_iff)

lemma match_digits_run:
  assumes "list_all (\<lambda>x. \<not> is_digit x) pre" and "m \<noteq> []" and "list_all is_digit m"
    and "post = [] \<or> \<not> is_digit (hd post)"
  shows "match_digits (pre @ m @ post) = Some m"
proof -
  from assms(1) have 1: "dropWhile (\<lambda>c. \<not> is_digit c) (pre @ m @ post) =
      dropWhile (\<lambda>c. \<not> is_digit c) (m @ post)"
    by (simp add: list_all_iff dropWhile_append2)
  from assms(2,3) have 2: "dropWhile (\<lambda>c. \<not> is_digit c) (m @ post) = m @ post"
    by (cases m) simp_all
  from assms(4) have "takeWhile is_digit post = []"
    by (cases post) simp_all
  with assms(3) have 3: "takeWhile is_digit (m @ post) = m"
    by (simp add: list_all_iff takeWhile_append2)
  from assms(2) 1 2 3 show ?thesis
    by (simp add: match_digits_def)
qed

section \<open>Lookups in a memory of documents\<close>















lemma searchWord_docs:
  "searchWord A dict response docs =
     (fst (searchWord A dict response []), docs @ snd (searchWord A dict response []))"
  by (simp add: searchWord_def Let_def split: outcome.split prod.split)




section \<open>Evaluation on the example pages\<close>

lemma is_ws_fast:
  "is_ws c =
     (if c \<le> 0x20 then (c = 0x20 \<or> (0x09 \<le> c \<and> c \<le> 0x0D))
      else if c < 0xA0 then False
      else (c = 0xA0 \<or> c = 0x1680 \<or> (0x2000 \<le> c \<and> c \<le> 0x200A) \<or> c = 0x2028 \<or>
            c = 0x2029 \<or> c = 0x202F \<or> c = 0x205F \<or> c = 0x3000 \<or> c = 0xFEFF))"
  unfolding is_ws_def by (auto; unat_arith?)

lemma dom_adapter_sel:
  "cheerio_load (dom_adapter page) = (\<lambda>markup. page)"
  "cheerio_select (dom_adapter page) = dom_select"
  "cheerio_find (dom_adapter page) = dom_find"
  "cheerio_text (dom_adapter page) = dom_text"
  "cheerio_html (dom_adapter page) = dom_html"
  "cheerio_attr (dom_adapter page) = dom_attr"
  "cheerio_replace (dom_adapter page) = dom_replace"
  "chalk_red (dom_adapter page) = (\<lambda>s. s)"
  "chalk_cyan (dom_adapter page) = (\<lambda>s. s)"
  "chalk_dim (dom_adapter page) = (\<lambda>s. s)"
  by (simp_all add: dom_adapter_def)

lemmas dom_eval_sel =
  dom_adapter_sel dom_select_def dom_find_def dom_text_def dom_html_def dom_attr_def
  dom_replace_def elements_in_def matches_def matches_at_def parse_selector_def
  parse_simple_def js_def is_ws_fast replaceWith_def

lemma ok_response_ok: "ok ok_response" "body ok_response = []"
  by (simp_all add: ok_response_def)

lemma dict_bing:
  "(None :: jsstring option) = None \<or> None = Some (js ''bing'')"
  "Some (js ''bing'') = None \<or> Some (js ''bing'') = Some (js ''bing'')"
  by simp_all

lemma eval_both:
  "client_def_hd_hd (dom_adapter both_page) both_page empty_result =
     (empty_result\<lparr>title := Some (js ''hello'')\<rparr>, both_page)"
  "dom_select both_page ''.client_def_hd_hd'' = [[0]]"
  "dom_select both_page ''.client_do_you_mean_title_bar'' = [[1]]"
  by (simp_all add: client_def_hd_hd_def sentences_block_def infs_block_def cdef_block_def
      phsym_block_def dom_eval_sel both_page_def)

lemma eval_trans:
  "client_trans_head (dom_adapter trans_page) trans_page empty_result =
     (empty_result\<lparr>mt := Some (js ''ni hao'')\<rparr>, trans_page)"
  "dom_select trans_page ''.client_def_hd_hd'' = []"
  "dom_select trans_page ''.client_trans_head'' = [[0]]"
  by (simp_all add: client_trans_head_def dom_eval_sel trans_page_def)

lemma eval_sugg:
  "client_do_you_mean_title_bar (dom_adapter sugg_page) sugg_page empty_result =
     (empty_result\<lparr>title := Some (js ''helo''), defs := Some []\<rparr>, sugg_page)"
  "dom_select sugg_page ''.client_def_hd_hd'' = []"
  "dom_select sugg_page ''.client_trans_head'' = []"
  "dom_select sugg_page ''.client_do_you_mean_title_bar'' = [[0]]"
  by (simp_all add: client_do_you_mean_title_bar_def dom_eval_sel sugg_page_def)

lemma eval_empty:
  "dom_select empty_page sel = []"
  "dom_text empty_page [] = []"
  "dom_attr empty_page [] name = None"
  by (simp_all add: dom_select_def dom_text_def dom_attr_def elements_in_def empty_page_def)

lemma eval_youdao_empty:
  "handle_youdao (dom_adapter empty_page) empty_page empty_result =
     (youdao_empty_result, empty_page)"
  by (simp add: handle_youdao_def dom_adapter_sel eval_empty stars_of_def normalize_def
      trim_def youdao_empty_result_def)

lemma eval_youdao_page:
  "handle_youdao (dom_adapter youdao_page) youdao_page empty_result =
     (youdao_page_result, youdao_page_after)"
  "dom_select youdao_page ''.error-typo'' = []"
  "dom_attr youdao_page (dom_select youdao_page ''.star'') ''class'' = Some (js ''star star4'')"
  by (simp_all add: handle_youdao_def example_of_def stars_of_def match_digits_def
      is_digit_def normalize_def trim_def dom_eval_sel youdao_page_def youdao_page_result_def
      youdao_page_after_def)

lemma eval_typo:
  "dom_select typo_page ''.error-typo'' = [[0]]"
  "dom_text typo_page [[0]] = js ''not found''"
  "dom_select typo_page ''.keyword'' = [[1]]"
  "dom_select typo_empty_page ''.error-typo'' = [[0]]"
  "dom_text typo_empty_page [[0]] = []"
  by (simp_all add: dom_eval_sel typo_page_def typo_empty_page_def)


lemma eval_error:
  "error_message (dom_adapter error_page) failed_response = js ''Rate limited''"
  by (simp add: error_message_def failed_response_def startsWith_def truthy_def dom_eval_sel
      error_page_def)

lemma eval_sentences_page:
  "map_option (map (\<lambda>s. (en s, source s)))
     (sentences (fst (client_def_hd_hd (dom_adapter sentences_page) sentences_page
        empty_result))) =
     Some [(Some (js ''Hi!''), js ''a''), (None, js ''b''), (None, js ''c''), (None, js ''d'')]"
  "length (dom_select sentences_page ''.client_sentence_list'') = 5"
  "dom_select sentences_page ''.client_def_hd_hd'' \<noteq> []"
  by (simp_all add: client_def_hd_hd_sentences sentences_block_def sentence_of_def
      dom_eval_sel sentences_page_def sentence_item_def)

lemma eval_cdef_page:
  "client_def_hd_hd (dom_adapter cdef_page) cdef_page empty_result =
     (empty_result\<lparr>title := Some (js ''hello''),
        cdef := Some [\<lparr>pos = js ''int.'', def = js ''a greeting''\<rparr>]\<rparr>, cdef_page)"
  "dom_select cdef_page ''.client_def_hd_hd'' \<noteq> []"
  "length (dom_select cdef_page ''.client_def_container .client_def_bar'') = 2"
  by (simp_all add: client_def_hd_hd_def sentences_block_def infs_block_def cdef_block_def
      phsym_block_def truthy_def dom_eval_sel cdef_page_def)

lemma searchWord_youdao_empty:
  "searchWord (dom_adapter empty_page) (Some (js ''youdao'')) ok_response docs =
     (Return youdao_empty_result, docs @ [empty_page])"
  by (simp add: searchWord_youdao [OF ok_response_ok(1) refl] Let_def dom_adapter_sel
      eval_empty eval_youdao_empty)

lemma searchWord_youdao_page:
  "searchWord (dom_adapter youdao_page) (Some (js ''youdao'')) ok_response docs =
     (Return youdao_page_result, docs @ [youdao_page_after])"
  by (simp add: searchWord_youdao [OF ok_response_ok(1) refl] Let_def dom_adapter_sel
      eval_youdao_page)

lemma youdao_empty_result_fields:
  "title youdao_empty_result = Some []" "stars youdao_empty_result = Some (JNum 0)"
  "rank youdao_empty_result = Some []" "pattern youdao_empty_result = Some []"
  "prons youdao_empty_result = Some []" "basic youdao_empty_result = Some []"
  "discrimination youdao_empty_result = Some []" "sentence youdao_empty_result = Some []"
  "translation youdao_empty_result = Some []"
  by (simp_all add: youdao_empty_result_def)


section \<open>The claims\<close>

subsection \<open>C1\<close>




subsection \<open>C2\<close>

text \<open>
  C2. For a successful response of source A (the option \<^verbatim>\<open>dict\<close> absent or
  \<^verbatim>\<open>'bing'\<close>), the three markers are tested in the order full-definition,
  translation-head, suggestion-title, and the outcome is that of exactly one extractor, the
  one of the first marker present, run on the empty record and the parsed document: with
  the full-definition marker present it is \<^verbatim>\<open>client_def_hd_hd\<close> whatever other
  markers the page has (the record then has no \<^verbatim>\<open>mt\<close> and no \<^verbatim>\<open>defs\<close>), and with
  no marker present the record and the document are left as they were.
\<close>

theorem bing_classification:
  assumes "ok response" and "dict = None \<or> dict = Some (js ''bing'')"
  shows
    "let d = cheerio_load A (body response);
         full = cheerio_select A d ''.client_def_hd_hd'';
         trans = cheerio_select A d ''.client_trans_head'';
         sugg = cheerio_select A d ''.client_do_you_mean_title_bar'';
         out = searchWord A dict response docs
     in (full \<noteq> [] \<longrightarrow>
           out = (Return (fst (client_def_hd_hd A d empty_result)),
                  docs @ [snd (client_def_hd_hd A d empty_result)]) \<and>
           mt (fst (client_def_hd_hd A d empty_result)) = None \<and>
           defs (fst (client_def_hd_hd A d empty_result)) = None) \<and>
        (full = [] \<and> trans \<noteq> [] \<longrightarrow>
           out = (Return (fst (client_trans_head A d empty_result)),
                  docs @ [snd (client_trans_head A d empty_result)])) \<and>
        (full = [] \<and> trans = [] \<and> sugg \<noteq> [] \<longrightarrow>
           out = (Return (fst (client_do_you_mean_title_bar A d empty_result)),
                  docs @ [snd (client_do_you_mean_title_bar A d empty_result)])) \<and>
        (full = [] \<and> trans = [] \<and> sugg = [] \<longrightarrow> out = (Return empty_result, docs @ [d]))"
  by (simp add: searchWord_bing [OF assms] Let_def client_def_hd_hd_others empty_result_fields)

theorem bing_classification_witness:
  "ok ok_response \<and>
   dom_select both_page ''.client_def_hd_hd'' \<noteq> [] \<and>
   dom_select both_page ''.client_do_you_mean_title_bar'' \<noteq> [] \<and>
   searchWord (dom_adapter both_page) None ok_response [] =
     (Return (empty_result\<lparr>title := Some (js ''hello'')\<rparr>), [both_page]) \<and>
   searchWord (dom_adapter trans_page) None ok_response [] =
     (Return (empty_result\<lparr>mt := Some (js ''ni hao'')\<rparr>), [trans_page]) \<and>
   searchWord (dom_adapter sugg_page) (Some (js ''bing'')) ok_response [] =
     (Return (empty_result\<lparr>title := Some (js ''helo''), defs := Some []\<rparr>), [sugg_page]) \<and>
   searchWord (dom_adapter empty_page) None ok_response [] = (Return empty_result, [empty_page])"
  using bing_classification [OF ok_response_ok(1) dict_bing(1), of "dom_adapter both_page" "[]"]
    bing_classification [OF ok_response_ok(1) dict_bing(1), of "dom_adapter trans_page" "[]"]
    bing_classification [OF ok_response_ok(1) dict_bing(2), of "dom_adapter sugg_page" "[]"]
    bing_classification [OF ok_response_ok(1) dict_bing(1), of "dom_adapter empty_page" "[]"]
  by (simp add: Let_def dom_adapter_sel ok_response_ok eval_both eval_trans eval_sugg eval_empty)

subsection \<open>C3\<close>

text \<open>
  C3. For a full-definition page of source A, the \<^verbatim>\<open>sentences\<close> property has at most 4
  entries: it is absent when the page has no sentence-list item, and otherwise it has
  \<open>min 4 n\<close> entries for \<open>n\<close> items, entry \<open>i\<close> being what the callback returns for the
  \<open>i\<close>-th item of the page.
\<close>

theorem bing_sentences_at_most_4:
  assumes "ok response" and "dict = None \<or> dict = Some (js ''bing'')"
    and "cheerio_select A (cheerio_load A (body response)) ''.client_def_hd_hd'' \<noteq> []"
  shows
    "\<exists>r. fst (searchWord A dict response docs) = Return r \<and>
       (let d = cheerio_load A (body response);
            sens = cheerio_select A d ''.client_sentence_list''
        in case sentences r of
             None \<Rightarrow> sens = []
           | Some ss \<Rightarrow>
               sens \<noteq> [] \<and> length ss \<le> 4 \<and> length ss = min 4 (length sens) \<and>
               (\<forall>i<length ss. \<exists>d'. ss ! i = fst (sentence_of A d' (sens ! i))))"
proof -
  let ?d = "cheerio_load A (body response)"
  let ?sens = "cheerio_select A ?d ''.client_sentence_list''"
  let ?r = "fst (client_def_hd_hd A ?d empty_result)"
  let ?all = "fst (map_with_doc (sentence_of A) ?d ?sens)"
  have out: "fst (searchWord A dict response docs) = Return ?r"
    using assms(3) by (simp add: searchWord_bing [OF assms(1,2)] Let_def)
  have s: "sentences ?r = (if ?sens = [] then None else Some (take 4 ?all))"
    by (simp add: client_def_hd_hd_sentences sentences_block_sentences Let_def
        empty_result_fields)
  have nth: "\<exists>d'. take 4 ?all ! i = fst (sentence_of A d' (?sens ! i))"
    if "i < length (take 4 ?all)" for i
  proof -
    from that have "i < length ?sens" by (simp add: length_map_with_doc)
    from map_with_doc_nth [OF this, of "sentence_of A" ?d] that show ?thesis by simp
  qed
  have "case sentences ?r of
          None \<Rightarrow> ?sens = []
        | Some ss \<Rightarrow>
            ?sens \<noteq> [] \<and> length ss \<le> 4 \<and> length ss = min 4 (length ?sens) \<and>
            (\<forall>i<length ss. \<exists>d'. ss ! i = fst (sentence_of A d' (?sens ! i)))"
  proof (cases "?sens = []")
    case True
    with s show ?thesis by simp
  next
    case False
    with s nth show ?thesis by (simp add: length_map_with_doc min.commute)
  qed
  with out show ?thesis by (simp add: Let_def)
qed

theorem bing_sentences_at_most_4_witness:
  "ok ok_response \<and>
   dom_select sentences_page ''.client_def_hd_hd'' \<noteq> [] \<and>
   length (dom_select sentences_page ''.client_sentence_list'') = 5 \<and>
   (\<exists>r ss. fst (searchWord (dom_adapter sentences_page) None ok_response []) = Return r \<and>
      sentences r = Some ss \<and> length ss = 4 \<and>
      map source ss = [js ''a'', js ''b'', js ''c'', js ''d''] \<and>
      map en ss = [Some (js ''Hi!''), None, None, None])"
proof -
  let ?A = "dom_adapter sentences_page"
  have full: "cheerio_select ?A (cheerio_load ?A (body ok_response)) ''.client_def_hd_hd'' \<noteq> []"
    by (simp add: dom_adapter_sel eval_sentences_page)
  from bing_sentences_at_most_4 [OF ok_response_ok(1) dict_bing(1) full, of "[]"]
  obtain r where out: "fst (searchWord ?A None ok_response []) = Return r"
    and c: "case sentences r of
              None \<Rightarrow> dom_select sentences_page ''.client_sentence_list'' = []
            | Some ss \<Rightarrow>
                dom_select sentences_page ''.client_sentence_list'' \<noteq> [] \<and> length ss \<le> 4 \<and>
                length ss = min 4 (length (dom_select sentences_page ''.client_sentence_list'')) \<and>
                (\<forall>i<length ss. \<exists>d'. ss ! i =
                   fst (sentence_of ?A d' (dom_select sentences_page ''.client_sentence_list'' ! i)))"
    by (auto simp add: Let_def dom_adapter_sel)
  have "fst (searchWord ?A None ok_response []) =
      Return (fst (client_def_hd_hd ?A sentences_page empty_result))"
    by (simp add: searchWord_bing [OF ok_response_ok(1) dict_bing(1)] Let_def dom_adapter_sel
        eval_sentences_page)
  with out have r: "r = fst (client_def_hd_hd ?A sentences_page empty_result)" by simp
  with eval_sentences_page(1) obtain ss where ss: "sentences r = Some ss"
    and m: "map (\<lambda>s. (en s, source s)) ss =
      [(Some (js ''Hi!''), js ''a''), (None, js ''b''), (None, js ''c''), (None, js ''d'')]"
    by (cases "sentences r") auto
  from c ss have len: "length ss = 4"
    by (simp add: eval_sentences_page)
  from m have "map snd (map (\<lambda>s. (en s, source s)) ss) = [js ''a'', js ''b'', js ''c'', js ''d'']"
    by (simp only: list.map snd_conv)
  then have src: "map source ss = [js ''a'', js ''b'', js ''c'', js ''d'']"
    by (simp add: comp_def)
  from m have "map fst (map (\<lambda>s. (en s, source s)) ss) = [Some (js ''Hi!''), None, None, None]"
    by (simp only: list.map fst_conv)
  then have en: "map en ss = [Some (js ''Hi!''), None, None, None]"
    by (simp add: comp_def)
  have "\<exists>r ss. fst (searchWord ?A None ok_response []) = Return r \<and>
      sentences r = Some ss \<and> length ss = 4 \<and>
      map source ss = [js ''a'', js ''b'', js ''c'', js ''d''] \<and>
      map en ss = [Some (js ''Hi!''), None, None, None]"
    using out ss len src en by - (rule exI [of _ r], rule exI [of _ ss], simp)
  with ok_response_ok(1) eval_sentences_page(2,3) show ?thesis by simp
qed

subsection \<open>C4\<close>

text \<open>
  The claim C4 as it is stated fails: for the class attribute "star star4" the value of
  \<^verbatim>\<open>stars\<close> is the string "4", not the number 4.
\<close>

theorem youdao_stars_counterexample:
  "dom_select youdao_page ''.error-typo'' = [] \<and>
   dom_attr youdao_page (dom_select youdao_page ''.star'') ''class'' = Some (js ''star star4'') \<and>
   fst (searchWord (dom_adapter youdao_page) (Some (js ''youdao'')) ok_response []) =
     Return youdao_page_result \<and>
   stars youdao_page_result = Some (JStr (js ''4'')) \<and>
   stars youdao_page_result \<noteq> Some (JNum 4)"
  by (simp add: searchWord_youdao_page eval_youdao_page youdao_page_result_def)

text \<open>
  C4, as amended. For a page of source B without the typo marker, \<^verbatim>\<open>stars\<close> is
  \<open>stars_of\<close> of the class attribute of the star marker: the number 0 when the attribute is
  absent or has no digit, and otherwise the first run of digits of the attribute as a
  string (the class attribute "star star4" gives the string "4").
\<close>

theorem youdao_stars:
  assumes "ok response" and "dict = Some (js ''youdao'')"
    and "cheerio_select A (cheerio_load A (body response)) ''.error-typo'' = []"
  shows
    "(\<exists>r. fst (searchWord A dict response docs) = Return r \<and>
          stars r =
            Some (stars_of
                   (cheerio_attr A (cheerio_load A (body response))
                     (cheerio_select A (cheerio_load A (body response)) ''.star'') ''class''))) \<and>
     stars_of None = JNum 0 \<and>
     (list_all (\<lambda>x. \<not> is_digit x) c \<longrightarrow> stars_of (Some c) = JNum 0) \<and>
     (list_all (\<lambda>x. \<not> is_digit x) pre \<and> m \<noteq> [] \<and> list_all is_digit m \<and>
      (post = [] \<or> \<not> is_digit (hd post)) \<longrightarrow>
        stars_of (Some (pre @ m @ post)) = JStr m) \<and>
     stars_of (Some (js ''star star4'')) = JStr (js ''4'')"
proof -
  have "\<exists>r. fst (searchWord A dict response docs) = Return r \<and>
          stars r =
            Some (stars_of
                   (cheerio_attr A (cheerio_load A (body response))
                     (cheerio_select A (cheerio_load A (body response)) ''.star'') ''class''))"
    using assms(3) by (simp add: searchWord_youdao [OF assms(1,2)] Let_def handle_youdao_fields)
  moreover have "stars_of None = JNum 0"
    by (simp add: stars_of_def)
  moreover have "list_all (\<lambda>x. \<not> is_digit x) c \<longrightarrow> stars_of (Some c) = JNum 0"
    by (simp add: stars_of_def match_digits_none)
  moreover have "list_all (\<lambda>x. \<not> is_digit x) pre \<and> m \<noteq> [] \<and> list_all is_digit m \<and>
      (post = [] \<or> \<not> is_digit (hd post)) \<longrightarrow> stars_of (Some (pre @ m @ post)) = JStr m"
    by (simp add: stars_of_def match_digits_run)
  moreover have "stars_of (Some (js ''star star4'')) = JStr (js ''4'')"
    by (simp add: stars_of_def match_digits_def js_def is_digit_def)
  ultimately show ?thesis by blast
qed

theorem youdao_stars_witness:
  "ok ok_response \<and> dom_select youdao_page ''.error-typo'' = [] \<and>
   dom_attr youdao_page (dom_select youdao_page ''.star'') ''class'' = Some (js ''star star4'') \<and>
   fst (searchWord (dom_adapter youdao_page) (Some (js ''youdao'')) ok_response []) =
     Return youdao_page_result \<and>
   stars youdao_page_result = Some (JStr (js ''4'')) \<and>
   list_all (\<lambda>x. \<not> is_digit x) (js ''star'') \<and> stars_of (Some (js ''star'')) = JNum 0 \<and>
   list_all (\<lambda>x. \<not> is_digit x) (js ''star star'') \<and> list_all is_digit (js ''4'') \<and>
   stars_of (Some (js ''star star'' @ js ''4'' @ js '' x5'')) = JStr (js ''4'')"
proof -
  let ?A = "dom_adapter youdao_page"
  have typo: "cheerio_select ?A (cheerio_load ?A (body ok_response)) ''.error-typo'' = []"
    by (simp add: dom_adapter_sel eval_youdao_page)
  have nd: "list_all (\<lambda>x. \<not> is_digit x) (js ''star'')"
    "list_all (\<lambda>x. \<not> is_digit x) (js ''star star'')" "list_all is_digit (js ''4'')"
    "js ''4'' \<noteq> []" "js '' x5'' = [] \<or> \<not> is_digit (hd (js '' x5''))"
    by (simp_all add: js_def is_digit_def)
  from youdao_stars [OF ok_response_ok(1) refl typo, of "[]" "js ''star''" "js ''star star''"
      "js ''4''" "js '' x5''"] nd
  have "stars_of (Some (js ''star'')) = JNum 0"
    and "stars_of (Some (js ''star star'' @ js ''4'' @ js '' x5'')) = JStr (js ''4'')"
    by blast+
  with nd ok_response_ok(1) show ?thesis
    by (simp add: searchWord_youdao_page eval_youdao_page youdao_page_result_def)
qed

subsection \<open>C5\<close>

text \<open>
  C5. For a page of source B with the typo marker, the record has the single property
  \<^verbatim>\<open>list\<close>, the text of the typo marker, whatever else is on the page, and
  \<^verbatim>\<open>handle_youdao\<close> is not run: the document is left as it was parsed.
\<close>

theorem youdao_typo_only_list:
  assumes "ok response" and "dict = Some (js ''youdao'')"
    and "cheerio_select A (cheerio_load A (body response)) ''.error-typo'' \<noteq> []"
  shows
    "searchWord A dict response docs =
       (let d = cheerio_load A (body response)
        in (Return (empty_result\<lparr>list :=
                      Some (cheerio_text A d (cheerio_select A d ''.error-typo''))\<rparr>),
            docs @ [d]))"
  using assms(3) by (simp add: searchWord_youdao [OF assms(1,2)] Let_def)

theorem youdao_typo_only_list_witness:
  "ok ok_response \<and>
   dom_select typo_page ''.error-typo'' \<noteq> [] \<and> dom_select typo_page ''.keyword'' \<noteq> [] \<and>
   searchWord (dom_adapter typo_page) (Some (js ''youdao'')) ok_response [] =
     (Return (empty_result\<lparr>list := Some (js ''not found'')\<rparr>), [typo_page])"
proof -
  let ?A = "dom_adapter typo_page"
  have typo: "cheerio_select ?A (cheerio_load ?A (body ok_response)) ''.error-typo'' \<noteq> []"
    by (simp add: dom_adapter_sel eval_typo)
  from youdao_typo_only_list [OF ok_response_ok(1) refl typo, of "[]"] show ?thesis
    by (simp add: Let_def dom_adapter_sel ok_response_ok eval_typo)
qed

subsection \<open>C6\<close>

text \<open>
  C6. For a full-definition page of source A, \<^verbatim>\<open>cdef\<close> is what the specification
  describes (\<open>cdef_spec\<close>): the bars with a word-tag marker are left out wherever they
  stand, the others give a pair each, the pairs with both parts non-empty are kept, and the
  property is absent, never an empty sequence, when none is kept.
\<close>

theorem bing_cdef_excludes_word_tags:
  assumes "ok response" and "dict = None \<or> dict = Some (js ''bing'')"
    and "cheerio_select A (cheerio_load A (body response)) ''.client_def_hd_hd'' \<noteq> []"
  shows
    "\<exists>r. fst (searchWord A dict response docs) = Return r \<and>
         cdef r = cdef_spec A (cheerio_load A (body response)) \<and> cdef r \<noteq> Some []"
proof -
  let ?d = "cheerio_load A (body response)"
  let ?r = "fst (client_def_hd_hd A ?d empty_result)"
  have out: "fst (searchWord A dict response docs) = Return ?r"
    using assms(3) by (simp add: searchWord_bing [OF assms(1,2)] Let_def)
  have c: "cdef ?r = cdef_spec A ?d"
    by (simp add: client_def_hd_hd_cdef cdef_block_cdef cdef_spec_def Let_def truthy_def
        empty_result_fields)
  have "cdef_spec A ?d \<noteq> Some []"
    by (simp add: cdef_spec_def Let_def)
  with out c show ?thesis by simp
qed

theorem bing_cdef_excludes_word_tags_witness:
  "ok ok_response \<and>
   dom_select cdef_page ''.client_def_hd_hd'' \<noteq> [] \<and>
   length (dom_select cdef_page ''.client_def_container .client_def_bar'') = 2 \<and>
   fst (searchWord (dom_adapter cdef_page) None ok_response []) =
     Return (empty_result\<lparr>title := Some (js ''hello''),
       cdef := Some [\<lparr>pos = js ''int.'', def = js ''a greeting''\<rparr>]\<rparr>) \<and>
   cdef_spec (dom_adapter cdef_page) cdef_page =
     Some [\<lparr>pos = js ''int.'', def = js ''a greeting''\<rparr>]"
proof -
  let ?A = "dom_adapter cdef_page"
  have full: "cheerio_select ?A (cheerio_load ?A (body ok_response)) ''.client_def_hd_hd'' \<noteq> []"
    by (simp add: dom_adapter_sel eval_cdef_page)
  from bing_cdef_excludes_word_tags [OF ok_response_ok(1) dict_bing(1) full, of "[]"]
  obtain r where out: "fst (searchWord ?A None ok_response []) = Return r"
    and c: "cdef r = cdef_spec ?A cdef_page"
    by (auto simp add: dom_adapter_sel)
  have e: "fst (searchWord ?A None ok_response []) =
      Return (empty_result\<lparr>title := Some (js ''hello''),
        cdef := Some [\<lparr>pos = js ''int.'', def = js ''a greeting''\<rparr>]\<rparr>)"
    by (simp add: searchWord_bing [OF ok_response_ok(1) dict_bing(1)] Let_def dom_adapter_sel
        eval_cdef_page)
  with out have "r = empty_result\<lparr>title := Some (js ''hello''),
        cdef := Some [\<lparr>pos = js ''int.'', def = js ''a greeting''\<rparr>]\<rparr>" by simp
  with c have "cdef_spec ?A cdef_page = Some [\<lparr>pos = js ''int.'', def = js ''a greeting''\<rparr>]"
    by simp
  with e ok_response_ok(1) eval_cdef_page(2,3) show ?thesis by simp
qed

subsection \<open>C7\<close>

text \<open>
  C7. The message of a failed response is the text of the \<^verbatim>\<open>.sc_error\<close> marker when
  the body starts with \<^verbatim>\<open><!\<close> and that text is not empty, else the body when it is not
  empty, else the status text; \<^verbatim>\<open>text\<close> ends the process with that message (coloured)
  and has no other outcome for a failed response; an empty body with the status text
  "Service Unavailable" gives "Service Unavailable".
\<close>

theorem error_message_cases:
  "error_message A response =
     (let b = body response;
          sc = cheerio_text A (cheerio_load A b) (cheerio_select A (cheerio_load A b) ''.sc_error'')
      in if startsWith b (js ''<!'') \<and> sc \<noteq> [] then sc
         else if b \<noteq> [] then b
         else statusText response) \<and>
   (\<not> ok response \<longrightarrow>
      text_response A response = Exit (chalk_red A (error_message A response))) \<and>
   error_message A \<lparr>ok = False, body = [], statusText = js ''Service Unavailable''\<rparr> =
     js ''Service Unavailable''"
  by (simp add: error_message_def text_response_def Let_def truthy_def startsWith_def js_def)

theorem error_message_cases_witness:
  "\<not> ok failed_response \<and>
   startsWith (body failed_response) (js ''<!'') \<and>
   text_response (dom_adapter error_page) failed_response = Exit (js ''Rate limited'')"
proof -
  have n: "\<not> ok failed_response" by (simp add: failed_response_def)
  have s: "startsWith (body failed_response) (js ''<!'')"
    by (simp add: failed_response_def startsWith_def js_def)
  from error_message_cases [of "dom_adapter error_page" failed_response] n
  have "text_response (dom_adapter error_page) failed_response =
      Exit (chalk_red (dom_adapter error_page)
        (error_message (dom_adapter error_page) failed_response))"
    by blast
  with n s show ?thesis by (simp add: eval_error dom_adapter_sel)
qed

subsection \<open>C8\<close>

text \<open>
  The claim C8 as it is stated fails: on a page of source B with neither the typo marker
  nor the headword marker, the record has a \<^verbatim>\<open>title\<close> property, the empty string.
\<close>

theorem youdao_no_marker_title_counterexample:
  "dom_select empty_page ''.error-typo'' = [] \<and> dom_select empty_page ''.keyword'' = [] \<and>
   searchWord (dom_adapter empty_page) (Some (js ''youdao'')) ok_response [] =
     (Return youdao_empty_result, [empty_page]) \<and>
   title youdao_empty_result = Some [] \<and> title youdao_empty_result \<noteq> None"
  by (simp add: searchWord_youdao_empty eval_empty youdao_empty_result_fields)

text \<open>
  C8, as amended. A page with no known marker gives a record that is no hit under the test
  \<^verbatim>\<open>!result.title\<close>: for source A the record is left untouched (it has no title), and
  for source B \<^verbatim>\<open>handle_youdao\<close> sets the title to the empty string when the headword
  marker is absent (the text of an empty selection being empty).
\<close>

theorem no_marker_is_no_result:
  assumes "ok response"
  shows
    "let d = cheerio_load A (body response);
         out = fst (searchWord A dict response docs)
     in ((dict = None \<or> dict = Some (js ''bing'')) \<and>
         cheerio_select A d ''.client_def_hd_hd'' = [] \<and>
         cheerio_select A d ''.client_trans_head'' = [] \<and>
         cheerio_select A d ''.client_do_you_mean_title_bar'' = [] \<longrightarrow>
           out = Return empty_result \<and> title empty_result = None \<and> no_result empty_result) \<and>
        (dict = Some (js ''youdao'') \<and>
         cheerio_select A d ''.error-typo'' = [] \<and>
         cheerio_select A d ''.keyword'' = [] \<and> cheerio_text A d [] = [] \<longrightarrow>
           (\<exists>r. out = Return r \<and> title r = Some [] \<and> no_result r))"
proof -
  let ?d = "cheerio_load A (body response)"
  have a: "fst (searchWord A dict response docs) = Return empty_result"
    if "dict = None \<or> dict = Some (js ''bing'')"
      and "cheerio_select A ?d ''.client_def_hd_hd'' = []"
      and "cheerio_select A ?d ''.client_trans_head'' = []"
      and "cheerio_select A ?d ''.client_do_you_mean_title_bar'' = []"
    using that(2-) by (simp add: searchWord_bing [OF assms that(1)] Let_def)
  have b: "\<exists>r. fst (searchWord A dict response docs) = Return r \<and> title r = Some [] \<and> no_result r"
    if "dict = Some (js ''youdao'')" and "cheerio_select A ?d ''.error-typo'' = []"
      and "cheerio_select A ?d ''.keyword'' = []" and "cheerio_text A ?d [] = []"
    using that(2-)
    by (simp add: searchWord_youdao [OF assms that(1)] Let_def handle_youdao_fields no_result_def)
  from a b show ?thesis
    by (simp add: Let_def empty_result_fields no_result_def)
qed

theorem no_marker_is_no_result_witness:
  "ok ok_response \<and>
   dom_select empty_page ''.client_def_hd_hd'' = [] \<and>
   dom_select empty_page ''.client_trans_head'' = [] \<and>
   dom_select empty_page ''.client_do_you_mean_title_bar'' = [] \<and>
   dom_select empty_page ''.error-typo'' = [] \<and> dom_select empty_page ''.keyword'' = [] \<and>
   dom_text empty_page [] = [] \<and>
   fst (searchWord (dom_adapter empty_page) None ok_response []) = Return empty_result \<and>
   no_result empty_result \<and>
   fst (searchWord (dom_adapter empty_page) (Some (js ''youdao'')) ok_response []) =
     Return youdao_empty_result \<and>
   title youdao_empty_result = Some [] \<and> no_result youdao_empty_result"
proof -
  let ?A = "dom_adapter empty_page"
  from no_marker_is_no_result [OF ok_response_ok(1), of ?A None "[]"]
  have a: "fst (searchWord ?A None ok_response []) = Return empty_result \<and>
      no_result empty_result"
    by (simp add: Let_def dom_adapter_sel eval_empty)
  from no_marker_is_no_result [OF ok_response_ok(1), of ?A "Some (js ''youdao'')" "[]"]
  obtain r where r: "fst (searchWord ?A (Some (js ''youdao'')) ok_response []) = Return r"
    and t: "title r = Some []" and n: "no_result r"
    by (auto simp add: Let_def dom_adapter_sel eval_empty)
  from r have "r = youdao_empty_result"
    by (simp add: searchWord_youdao_empty)
  with r t n a ok_response_ok(1) show ?thesis
    by (simp add: eval_empty)
qed

subsection \<open>C9\<close>

text \<open>
  C9. The text normaliser (collapse every whitespace run to one space, then trim) is
  idempotent, and it maps the string "  a   b\n c " to "a b c".
\<close>

theorem normalize_idempotent:
  "normalize (normalize s) = normalize s \<and>
   normalize (js ''  a   b'' @ [0x0A] @ js '' c '') = js ''a b c''"
proof
  have "collapsed (trim (replace_ws s))"
    by (rule collapsed_trim [OF collapsed_replace_ws])
  then have "replace_ws (trim (replace_ws s)) = trim (replace_ws s)"
    by (rule replace_ws_collapsed)
  then show "normalize (normalize s) = normalize s"
    by (simp add: normalize_def trim_trim)
next
  show "normalize (js ''  a   b'' @ [0x0A] @ js '' c '') = js ''a b c''"
    by (simp add: normalize_def trim_def js_def is_ws_def)
qed

subsection \<open>C10\<close>



end
